theory Spec2Isabelle
  imports Main
begin

section \<open>cosmovisor/process.go: the launcher of the supervised daemon\<close>

text \<open>
  A shallow embedding of \<^verbatim>\<open>cosmovisor/process.go\<close>: the mutex-guarded
  \<^verbatim>\<open>WaitResult\<close>, \<^verbatim>\<open>doBackup\<close>, \<^verbatim>\<open>Launcher.WaitForUpgradeOrExit\<close>,
  \<^verbatim>\<open>Launcher.Run\<close> and the signal-relay goroutine that \<^verbatim>\<open>Run\<close> starts.
  Calls that leave the file (the configuration, the file watcher, the child process, the
  clock, the directory copy, the binary swap) are answered by a record of their results,
  and every effect of the main goroutine is appended to a trace of events.
\<close>

subsection \<open>Go errors\<close>

text \<open>
  A Go \<^verbatim>\<open>error\<close> is either an opaque error with a message, or an error made by
  \<^verbatim>\<open>fmt.Errorf("<prefix>%w", err)\<close>, which wraps \<^verbatim>\<open>err\<close> behind a prefix.
  \<^verbatim>\<open>nil\<close> is \<open>None\<close> of \<open>error option\<close>.
\<close>

datatype error = ErrorString string | WrapError string error

fun Error :: "error \<Rightarrow> string" where
  "Error (ErrorString s) = s"
| "Error (WrapError p e) = p @ Error e"

subsection \<open>WaitResult\<close>

text \<open>
  \<^verbatim>\<open>
  type WaitResult struct {
      err   error
      info  *UpgradeInfo
      mutex sync.Mutex
  }
  \<close>
  The type \<^verbatim>\<open>UpgradeInfo\<close> is declared outside \<^verbatim>\<open>process.go\<close>; it is the type
  parameter \<open>'i\<close>. A \<^verbatim>\<open>sync.Mutex\<close> is either unlocked or locked.
\<close>

datatype Mutex = Unlocked | Locked

record 'i WaitResult =
  err :: "error option"
  info :: "'i option"
  mutex :: Mutex

text \<open>
  \<^verbatim>\<open>Lock\<close> on a locked mutex blocks the caller (\<open>None\<close>: the call does not
  return while the mutex stays locked); \<^verbatim>\<open>Unlock\<close> of an unlocked mutex is a fatal
  runtime error (\<open>None\<close> as well).
\<close>

definition Lock :: "'i WaitResult \<Rightarrow> 'i WaitResult option" where
  "Lock u = (if mutex u = Locked then None else Some (u\<lparr>mutex := Locked\<rparr>))"

definition Unlock :: "'i WaitResult \<Rightarrow> 'i WaitResult option" where
  "Unlock u = (if mutex u = Unlocked then None else Some (u\<lparr>mutex := Unlocked\<rparr>))"

text \<open>
  \<^verbatim>\<open>
  func (u *WaitResult) AsResult() (*UpgradeInfo, error) {
      u.mutex.Lock()
      defer u.mutex.Unlock()
      return u.info, u.err
  }
  \<close>
  The result is the pair read under the lock, together with the record after the
  deferred unlock.
\<close>

definition AsResult :: "'i WaitResult \<Rightarrow> (('i option \<times> error option) \<times> 'i WaitResult) option" where
  "AsResult u =
     (case Lock u of
        None \<Rightarrow> None
      | Some u1 \<Rightarrow>
          (case Unlock u1 of
             None \<Rightarrow> None
           | Some u2 \<Rightarrow> Some ((info u1, err u1), u2)))"

text \<open>
  \<^verbatim>\<open>
  // SetError will set with the first error using a mutex
  // don't set it once info is set, that means we chose to kill the process
  func (u *WaitResult) SetError(myErr error) {
      u.mutex.Lock()
      defer u.mutex.Unlock()
      if u.info == nil && myErr != nil {
          u.err = myErr
      }
  }
  \<close>
\<close>

definition SetError :: "'i WaitResult \<Rightarrow> error option \<Rightarrow> 'i WaitResult option" where
  "SetError u myErr =
     (case Lock u of
        None \<Rightarrow> None
      | Some u1 \<Rightarrow>
          Unlock (if info u1 = None \<and> myErr \<noteq> None then u1\<lparr>err := myErr\<rparr> else u1))"

subsection \<open>Library functions used by process.go\<close>

text \<open>
  \<^verbatim>\<open>strings.Join\<close>, and \<^verbatim>\<open>fmt.Println\<close> on string operands: the operands
  separated by one space, then a newline. A \<^verbatim>\<open>[]string\<close> operand prints as its
  elements between brackets.
\<close>

fun Join :: "string list \<Rightarrow> string \<Rightarrow> string" where
  "Join [] sep = []"
| "Join [a] sep = a"
| "Join (a # b # bs) sep = a @ sep @ Join (b # bs) sep"

definition Println :: "string list \<Rightarrow> string" where
  "Println operands = Join operands '' '' @ [CHR 0x0A]"

definition fmtStrings :: "string list \<Rightarrow> string" where
  "fmtStrings a = ''['' @ Join a '' '' @ '']''"

text \<open>
  \<^verbatim>\<open>fmt.Sprintf\<close> on string operands, for the directives \<^verbatim>\<open>%s\<close> and
  \<^verbatim>\<open>%%\<close>: a \<^verbatim>\<open>%s\<close> prints the next operand, or \<^verbatim>\<open>%!s(MISSING)\<close> when
  none is left; a \<^verbatim>\<open>%\<close> that ends the format prints \<^verbatim>\<open>%!(NOVERB)\<close>; operands
  left over are reported as \<^verbatim>\<open>%!(EXTRA string=...)\<close>. What Go prints from the first
  directive of any other form on (flags, width, precision, argument index, other verbs)
  is not described here: it is the parameter \<open>other\<close>, applied to the rest of the format
  and the operands still unused.
\<close>

definition extraString :: "string list \<Rightarrow> string" where
  "extraString a =
     (if a = [] then [] else ''%!(EXTRA '' @ Join (map (\<lambda>x. ''string='' @ x) a) '', '' @ '')'')"

fun Sprintf :: "(string \<Rightarrow> string list \<Rightarrow> string) \<Rightarrow> string \<Rightarrow> string list \<Rightarrow> string" where
  "Sprintf other [] a = extraString a"
| "Sprintf other [c] a =
     (if c = CHR ''%'' then ''%!(NOVERB)'' @ extraString a else c # extraString a)"
| "Sprintf other (c # v # cs) a =
     (if c = CHR ''%'' then
        (if v = CHR ''%'' then CHR ''%'' # Sprintf other cs a
         else if v = CHR ''s'' then
           (case a of
              [] \<Rightarrow> ''%!s(MISSING)'' @ Sprintf other cs []
            | x # xs \<Rightarrow> x @ Sprintf other cs xs)
         else other (c # v # cs) a)
      else c # Sprintf other (v # cs) a)"

declare Sprintf.simps [simp del]

text \<open>
  \<^verbatim>\<open>time.Time.Format\<close>. A layout is read from the left; at each position Go looks
  for a reference chunk (\<^verbatim>\<open>nextStdChunk\<close>) and prints the matching field of the time,
  and every other byte is copied. The chunks below are those that start with one of the
  bytes \<^verbatim>\<open>0\<close> to \<^verbatim>\<open>5\<close>: \<^verbatim>\<open>01 02 03 04 05 06 002 15 1 2006 2 3 4 5\<close>.
  The layout of \<^verbatim>\<open>doBackup\<close>, \<^verbatim>\<open>"01-22-2000"\<close>, has the bytes \<^verbatim>\<open>0\<close>,
  \<^verbatim>\<open>1\<close>, \<^verbatim>\<open>2\<close> and \<^verbatim>\<open>-\<close> only, and a \<^verbatim>\<open>-\<close> starts a chunk only in
  front of \<^verbatim>\<open>07\<close>; the chunks that start with a letter, \<^verbatim>\<open>_\<close>, \<^verbatim>\<open>.\<close> or
  \<^verbatim>\<open>,\<close> and the zone chunks are left out. A \<open>Time\<close> holds the civil fields that
  these chunks print.
\<close>

record Time =
  Year :: nat
  Month :: nat
  Day :: nat
  Hour :: nat
  Minute :: nat
  Second :: nat
  YearDay :: nat

text \<open>
  \<^verbatim>\<open>appendInt\<close> writes a number in decimal, padded with zeros to a width. \<open>digit\<close>
  is only applied to numbers below ten.
\<close>

definition digit :: "nat \<Rightarrow> char" where
  "digit d = ''0123456789'' ! d"

fun itoa :: "nat \<Rightarrow> string" where
  "itoa n = (if n < 10 then [digit n] else itoa (n div 10) @ [digit (n mod 10)])"

declare itoa.simps [simp del]

definition appendInt :: "nat \<Rightarrow> nat \<Rightarrow> string" where
  "appendInt x width = replicate (width - length (itoa x)) CHR ''0'' @ itoa x"

datatype std =
    stdZeroMonth | stdZeroDay | stdZeroHour12 | stdZeroMinute | stdZeroSecond | stdYear
  | stdZeroYearDay | stdHour | stdNumMonth | stdLongYear | stdDay
  | stdHour12 | stdMinute | stdSecond

definition std0x :: "char \<Rightarrow> std option" where
  "std0x c =
     (if c = CHR ''1'' then Some stdZeroMonth
      else if c = CHR ''2'' then Some stdZeroDay
      else if c = CHR ''3'' then Some stdZeroHour12
      else if c = CHR ''4'' then Some stdZeroMinute
      else if c = CHR ''5'' then Some stdZeroSecond
      else if c = CHR ''6'' then Some stdYear
      else None)"

text \<open>The chunk that starts at the head of the layout, with the number of bytes it takes.\<close>

definition stdChunk :: "string \<Rightarrow> (std \<times> nat) option" where
  "stdChunk layout =
     (case layout of
        [] \<Rightarrow> None
      | c # cs \<Rightarrow>
          if c = CHR ''0'' then
            (case cs of
               [] \<Rightarrow> None
             | d # ds \<Rightarrow>
                 (case std0x d of
                    Some s \<Rightarrow> Some (s, 2)
                  | None \<Rightarrow> if take 2 cs = ''02'' then Some (stdZeroYearDay, 3) else None))
          else if c = CHR ''1'' then
            (if take 1 cs = ''5'' then Some (stdHour, 2) else Some (stdNumMonth, 1))
          else if c = CHR ''2'' then
            (if take 4 layout = ''2006'' then Some (stdLongYear, 4) else Some (stdDay, 1))
          else if c = CHR ''3'' then Some (stdHour12, 1)
          else if c = CHR ''4'' then Some (stdMinute, 1)
          else if c = CHR ''5'' then Some (stdSecond, 1)
          else None)"

definition appendStd :: "Time \<Rightarrow> std \<Rightarrow> string" where
  "appendStd t s =
     (case s of
        stdYear \<Rightarrow> appendInt (Year t mod 100) 2
      | stdLongYear \<Rightarrow> appendInt (Year t) 4
      | stdNumMonth \<Rightarrow> appendInt (Month t) 0
      | stdZeroMonth \<Rightarrow> appendInt (Month t) 2
      | stdDay \<Rightarrow> appendInt (Day t) 0
      | stdZeroDay \<Rightarrow> appendInt (Day t) 2
      | stdZeroYearDay \<Rightarrow> appendInt (YearDay t) 3
      | stdHour \<Rightarrow> appendInt (Hour t) 2
      | stdHour12 \<Rightarrow> appendInt (if Hour t mod 12 = 0 then 12 else Hour t mod 12) 0
      | stdZeroHour12 \<Rightarrow> appendInt (if Hour t mod 12 = 0 then 12 else Hour t mod 12) 2
      | stdMinute \<Rightarrow> appendInt (Minute t) 0
      | stdZeroMinute \<Rightarrow> appendInt (Minute t) 2
      | stdSecond \<Rightarrow> appendInt (Second t) 0
      | stdZeroSecond \<Rightarrow> appendInt (Second t) 2)"

fun Format :: "Time \<Rightarrow> string \<Rightarrow> string" where
  "Format t [] = []"
| "Format t (c # cs) =
     (case stdChunk (c # cs) of
        None \<Rightarrow> c # Format t cs
      | Some (s, n) \<Rightarrow> appendStd t s @ Format t (drop (n - 1) cs))"

declare Format.simps [simp del]

subsection \<open>The configuration, the outside world and the trace\<close>

text \<open>
  \<^verbatim>\<open>Config\<close> is declared outside \<^verbatim>\<open>process.go\<close>; these are the two fields that
  the file reads.
\<close>

record Config =
  Home :: string
  UnsafeSkipBackup :: bool

datatype Signal = SIGHUP | SIGINT | SIGQUIT | SIGKILL | SIGTERM | SIGCHLD

text \<open>
  \<^verbatim>\<open>Run\<close> never calls \<^verbatim>\<open>signal.Stop\<close>, and its relay goroutine ends only by
  receiving a signal. Every earlier run of the same supervisor process that got as far as
  \<^verbatim>\<open>signal.Notify\<close> has therefore left its channel registered, and its goroutine is
  either still blocked on the channel (\<open>Armed\<close>, with the binary it names in its message,
  what \<^verbatim>\<open>cmd.Process.Signal\<close> answers on its own child, and the content of its
  channel) or has received its signal (\<open>Fired\<close>).
\<close>

datatype earlier_relay = Armed string "Signal \<Rightarrow> error option" "Signal option" | Fired

text \<open>
  The \<^verbatim>\<open>select\<close> of \<^verbatim>\<open>WaitForUpgradeOrExit\<close> takes the case whose channel is ready
  first: the channel of \<^verbatim>\<open>MonitorUpdate\<close>, or \<^verbatim>\<open>cmdDone\<close> with the result of
  \<^verbatim>\<open>cmd.Wait()\<close>. When neither ever becomes ready the \<^verbatim>\<open>select\<close> blocks for ever.
\<close>

datatype select_case = UpgradeFirst | CmdDoneFirst "error option" | NeitherReady

text \<open>
  What the calls that leave \<^verbatim>\<open>process.go\<close> answer during one run:
  \<^verbatim>\<open>l.cfg.CurrentBin()\<close>, \<^verbatim>\<open>EnsureBinary(bin)\<close>, \<^verbatim>\<open>cmd.Start()\<close>,
  \<^verbatim>\<open>l.cfg.UpgradeName()\<close>, the case the \<^verbatim>\<open>select\<close> takes,
  \<^verbatim>\<open>cmd.Process.Kill()\<close>, \<^verbatim>\<open>l.fw.CheckUpdate(name)\<close>, \<^verbatim>\<open>time.Now()\<close>,
  \<^verbatim>\<open>copy.Copy(src, dst)\<close>, the part of \<^verbatim>\<open>fmt.Sprintf\<close> left open above,
  \<^verbatim>\<open>l.fw.currentInfo\<close>, \<^verbatim>\<open>DoUpgrade(cfg, info)\<close>, the relays that earlier runs of
  this process have left behind, and \<^verbatim>\<open>cmd.Process.Signal(sig)\<close> on the child of this
  run.
\<close>

record 'i World =
  CurrentBin :: "error + string"
  EnsureBinary :: "string \<Rightarrow> error option"
  Start :: "error option"
  UpgradeName :: string
  Select :: select_case
  Kill :: "error option"
  CheckUpdate :: "string \<Rightarrow> bool"
  Now :: Time
  Copy :: "string \<Rightarrow> string \<Rightarrow> error option"
  SprintfOther :: "string \<Rightarrow> string list \<Rightarrow> string"
  currentInfo :: "'i option"
  DoUpgrade :: "Config \<Rightarrow> 'i option \<Rightarrow> error option"
  Earlier :: "earlier_relay list"
  Signal :: "Signal \<Rightarrow> error option"

text \<open>
  The effects of the main goroutine, in program order. \<open>RecvCmdDone\<close> is the receive
  from \<^verbatim>\<open>cmdDone\<close>: the only place where the main goroutine learns that
  \<^verbatim>\<open>cmd.Wait()\<close> has returned, that is, that the child has terminated and has been
  waited on. \<open>CopyDir\<close> is the call of \<^verbatim>\<open>copy.Copy\<close>.
\<close>

datatype event =
    Stdout string
  | CmdStart string "string list"
  | SignalNotify "Signal list"
  | GoSignalRelay
  | GoCmdWait
  | MonitorUpdate string
  | RecvMonitorUpdate
  | ProcessKill
  | RecvCmdDone "error option"
  | WatcherStop
  | CheckUpdateCall string
  | CopyDir string string
  | DoUpgradeCall

subsection \<open>doBackup\<close>

text \<open>
  \<^verbatim>\<open>
  func doBackup(cfg *Config) error {
      // take backup if `UNSAFE_SKIP_BACKUP` is not set.
      if !cfg.UnsafeSkipBackup {
          // a destination directory, Format MM-DD-YYYY
          dt := time.Now()
          dst := fmt.Sprintf(cfg.Home+"/data"+"-backup-%s", dt.Format("01-22-2000"))
          // copy the $DAEMON_HOME/data to a backup dir
          err := copy.Copy(cfg.Home+"/data", dst)
          if err != nil {
              return fmt.Errorf("error while taking data backup: %w", err)
          }
          fmt.Println("Backup saved at ", dst)
      }
      return nil
  }
  \<close>
\<close>

definition doBackup :: "Config \<Rightarrow> 'i World \<Rightarrow> error option \<times> event list" where
  "doBackup cfg w =
     (if UnsafeSkipBackup cfg then (None, [])
      else
        (let dt = Now w;
             dst = Sprintf (SprintfOther w) (Home cfg @ ''/data'' @ ''-backup-%s'')
                     [Format dt ''01-22-2000'']
         in case Copy w (Home cfg @ ''/data'') dst of
              Some e \<Rightarrow>
                (Some (WrapError ''error while taking data backup: '' e),
                 [CopyDir (Home cfg @ ''/data'') dst])
            | None \<Rightarrow>
                (None,
                 [CopyDir (Home cfg @ ''/data'') dst,
                  Stdout (Println [''Backup saved at '', dst])])))"

subsection \<open>Launcher.WaitForUpgradeOrExit\<close>

text \<open>
  \<^verbatim>\<open>
  func (l Launcher) WaitForUpgradeOrExit(cmd *exec.Cmd) (bool, error) {
      currentUpgradeName := l.cfg.UpgradeName()
      var cmdDone = make(chan error)
      go func() {
          cmdDone <- cmd.Wait()
      }()
      select {
      case <-l.fw.MonitorUpdate(currentUpgradeName):
          // upgrade - kill the process and restart
          _ = cmd.Process.Kill()
      case err := <-cmdDone:
          l.fw.Stop()
          // no error -> command exits normally (eg. short command like `gaiad version`)
          if err == nil {
              return false, nil
          }
          // the app x/upgrade causes a panic and the app can die before the filwatcher
          // finds the update, so we need to recheck update-info file.
          if !l.fw.CheckUpdate(currentUpgradeName) {
              return false, err
          }
      }
      return true, nil
  }
  \<close>
  The result is \<open>None\<close> when the \<^verbatim>\<open>select\<close> never returns. The \<^verbatim>\<open>err\<close>
  received from \<^verbatim>\<open>cmdDone\<close> is \<open>cmdErr\<close>.
\<close>

definition WaitForUpgradeOrExit :: "'i World \<Rightarrow> (bool \<times> error option) option \<times> event list" where
  "WaitForUpgradeOrExit w =
     (let currentUpgradeName = UpgradeName w;
          entered = [GoCmdWait, MonitorUpdate currentUpgradeName]
      in case Select w of
           NeitherReady \<Rightarrow> (None, entered)
         | UpgradeFirst \<Rightarrow> (Some (True, None), entered @ [RecvMonitorUpdate, ProcessKill])
         | CmdDoneFirst cmdErr \<Rightarrow>
             (case cmdErr of
                None \<Rightarrow> (Some (False, None), entered @ [RecvCmdDone cmdErr, WatcherStop])
              | Some e \<Rightarrow>
                  (if CheckUpdate w currentUpgradeName
                   then (Some (True, None),
                         entered @ [RecvCmdDone cmdErr, WatcherStop, CheckUpdateCall currentUpgradeName])
                   else (Some (False, cmdErr),
                         entered @ [RecvCmdDone cmdErr, WatcherStop, CheckUpdateCall currentUpgradeName]))))"

subsection \<open>Launcher.Run\<close>

text \<open>
  \<^verbatim>\<open>
  func (l Launcher) Run(args []string, stdout, stderr io.Writer) (bool, error) {
      bin, err := l.cfg.CurrentBin()
      if err != nil {
          return false, fmt.Errorf("error creating symlink to genesis: %w", err)
      }
      if err := EnsureBinary(bin); err != nil {
          return false, fmt.Errorf("current binary is invalid: %w", err)
      }
      fmt.Println("[cosmovisor] running ", bin, args)
      cmd := exec.Command(bin, args...)
      cmd.Stdout = stdout
      cmd.Stderr = stderr
      if err := cmd.Start(); err != nil {
          return false, fmt.Errorf("launching process %s %s failed: %w", bin,
              strings.Join(args, " "), err)
      }
      sigs := make(chan os.Signal, 1)
      signal.Notify(sigs, syscall.SIGQUIT, syscall.SIGTERM)
      go func() { ... }()
      needsUpdate, err := l.WaitForUpgradeOrExit(cmd)
      if err != nil || !needsUpdate {
          return false, err
      }
      if err := doBackup(l.cfg); err != nil {
          return false, err
      }
      return true, DoUpgrade(l.cfg, l.fw.currentInfo)
  }
  \<close>
  The short-circuit \<^verbatim>\<open>err != nil || !needsUpdate\<close> is the nested conditional, and
  the \<^verbatim>\<open>err\<close> it tests is \<open>waitErr\<close>. The
  result is \<open>None\<close> when \<^verbatim>\<open>WaitForUpgradeOrExit\<close> never returns. The goroutine
  started here is \<open>relay\<close> below; \<open>Run\<close> describes the main goroutine for as long as
  the process lives, and \<open>supervise\<close> below puts the two together.
\<close>

definition Run :: "Config \<Rightarrow> 'i World \<Rightarrow> string list \<Rightarrow> (bool \<times> error option) option \<times> event list" where
  "Run cfg w args =
     (case CurrentBin w of
        Inl e \<Rightarrow> (Some (False, Some (WrapError ''error creating symlink to genesis: '' e)), [])
      | Inr bin \<Rightarrow>
          (case EnsureBinary w bin of
             Some e \<Rightarrow> (Some (False, Some (WrapError ''current binary is invalid: '' e)), [])
           | None \<Rightarrow>
               (let launched =
                      [Stdout (Println [''[cosmovisor] running '', bin, fmtStrings args]),
                       CmdStart bin args]
                in case Start w of
                     Some e \<Rightarrow>
                       (Some (False,
                          Some (WrapError
                            (''launching process '' @ bin @ '' '' @ Join args '' '' @ '' failed: '') e)),
                        launched)
                   | None \<Rightarrow>
                       (let relayed = launched @ [SignalNotify [SIGQUIT, SIGTERM], GoSignalRelay];
                            (waited, tw) = WaitForUpgradeOrExit w
                        in case waited of
                             None \<Rightarrow> (None, relayed @ tw)
                           | Some (needsUpdate, waitErr) \<Rightarrow>
                               (if waitErr \<noteq> None then (Some (False, waitErr), relayed @ tw)
                                else if needsUpdate then
                                  (let (berr, tb) = doBackup cfg w
                                   in case berr of
                                        Some e \<Rightarrow> (Some (False, Some e), relayed @ tw @ tb)
                                      | None \<Rightarrow>
                                          (Some (True, DoUpgrade w cfg (currentInfo w)),
                                           relayed @ tw @ tb @ [DoUpgradeCall]))
                                else (Some (False, waitErr), relayed @ tw))))))"

subsection \<open>The signal relay\<close>

text \<open>
  \<^verbatim>\<open>
  sigs := make(chan os.Signal, 1)
  signal.Notify(sigs, syscall.SIGQUIT, syscall.SIGTERM)
  go func() {
      sig := <-sigs
      if err := cmd.Process.Signal(sig); err != nil {
          log.Fatal(bin, "terminated. Error:", err)
      }
  }()
  \<close>
  \<open>relay\<close> is the body of the goroutine once it has received \<open>sig\<close>: it sends \<open>sig\<close> to
  its child, and when that fails it calls \<^verbatim>\<open>log.Fatal\<close>, which prints its operands (no
  space is put next to a string operand) and ends the whole process with
  \<^verbatim>\<open>os.Exit(1)\<close>. The same body runs in the goroutine of this run (\<open>SignalChild\<close>) and
  in the goroutines that earlier runs have left behind, each on its own child
  (\<open>SignalEarlierChild\<close>).
\<close>

datatype relay_event = SignalChild Signal | SignalEarlierChild Signal | Fatal string

datatype ending = Exit1 | KilledBy Signal

definition relay ::
  "string \<Rightarrow> (Signal \<Rightarrow> error option) \<Rightarrow> (Signal \<Rightarrow> relay_event) \<Rightarrow> Signal
     \<Rightarrow> relay_event list \<times> ending option" where
  "relay bin answer child sig =
     (case answer sig of
        None \<Rightarrow> ([child sig], None)
      | Some e \<Rightarrow> ([child sig, Fatal (bin @ ''terminated. Error:'' @ Error e)], Some Exit1))"

subsection \<open>The supervisor process\<close>

text \<open>
  The main goroutine, the relay goroutines and the delivery of signals by the operating
  system run side by side. A schedule lists who moves next: \<open>Main\<close>, the main goroutine
  performs its next effect, or returns from \<^verbatim>\<open>Run\<close> when none is left; \<open>Deliver sig\<close>,
  the signal \<open>sig\<close> reaches the supervisor; \<open>Relay\<close>, the relay goroutine of this run gets
  to run; \<open>EarlierRelay i\<close>, the goroutine that the \<open>i\<close>-th earlier run left behind gets to
  run.

  The state of the supervisor process during one run: the effects that the main goroutine
  has still to perform and those it has performed, the result of \<^verbatim>\<open>Run\<close> once it has
  returned, whether \<^verbatim>\<open>signal.Notify\<close> of this run has been called, whether the \<^verbatim>\<open>go\<close>
  statement has started the relay, the content of the channel \<^verbatim>\<open>sigs\<close> (capacity 1),
  whether the relay has received, the relays of earlier runs, what the relays have done,
  and how the process has ended, if it has.
\<close>

datatype turn = Main | Deliver Signal | Relay | EarlierRelay nat

record supervisor =
  todo :: "event list"
  performed :: "event list"
  returned :: "(bool \<times> error option) option"
  notified :: bool
  started :: bool
  sigs :: "Signal option"
  received :: bool
  earlier :: "earlier_relay list"
  relayed :: "relay_event list"
  ended :: "ending option"


text \<open>
  The main goroutine performs the next effect of \<^verbatim>\<open>Run\<close>: \<^verbatim>\<open>signal.Notify\<close> registers
  the channel, the \<^verbatim>\<open>go\<close> statement starts the relay. With no effect left it returns
  the result of \<^verbatim>\<open>Run\<close>, or stays blocked in the \<^verbatim>\<open>select\<close> when there is none.
\<close>

definition main_step :: "Config \<Rightarrow> 'i World \<Rightarrow> string list \<Rightarrow> supervisor \<Rightarrow> supervisor" where
  "main_step cfg w args s =
     (case todo s of
        [] \<Rightarrow> s\<lparr>returned := fst (Run cfg w args)\<rparr>
      | e # es \<Rightarrow>
          s\<lparr>todo := es, performed := performed s @ [e],
            notified := (if e = SignalNotify [SIGQUIT, SIGTERM] then True else notified s),
            started := (if e = GoSignalRelay then True else started s)\<rparr>)"

text \<open>
  A signal reaches the supervisor. \<^verbatim>\<open>SIGCHLD\<close> is ignored by the Go runtime.
  \<^verbatim>\<open>SIGQUIT\<close> and \<^verbatim>\<open>SIGTERM\<close> are passed to every registered channel that has room
  (the send does not block, a signal that finds the channel full is dropped); while no
  channel is registered they end the process, as \<^verbatim>\<open>SIGHUP\<close>, \<^verbatim>\<open>SIGINT\<close> and
  \<^verbatim>\<open>SIGKILL\<close> always do, for which \<^verbatim>\<open>Run\<close> registers nothing.
\<close>

fun offer :: "Signal \<Rightarrow> earlier_relay \<Rightarrow> earlier_relay" where
  "offer sig (Armed bin answer None) = Armed bin answer (Some sig)"
| "offer sig (Armed bin answer (Some held)) = Armed bin answer (Some held)"
| "offer sig Fired = Fired"

definition deliver :: "Signal \<Rightarrow> supervisor \<Rightarrow> supervisor" where
  "deliver sig s =
     (if sig = SIGCHLD then s
      else if sig = SIGQUIT \<or> sig = SIGTERM then
        (if notified s then
           s\<lparr>sigs := (case sigs s of None \<Rightarrow> Some sig | Some held \<Rightarrow> Some held),
             earlier := map (offer sig) (earlier s)\<rparr>
         else if earlier s = [] then s\<lparr>ended := Some (KilledBy sig)\<rparr>
         else s\<lparr>earlier := map (offer sig) (earlier s)\<rparr>)
      else s\<lparr>ended := Some (KilledBy sig)\<rparr>)"

text \<open>
  The relay goroutine of this run gets to run: once started, and as long as it has not
  received, it takes the signal that is in the channel, if there is one, and runs its
  body. It receives once; afterwards the goroutine is over.
\<close>

definition relay_bin :: "'i World \<Rightarrow> string" where
  "relay_bin w = (case CurrentBin w of Inl e \<Rightarrow> [] | Inr bin \<Rightarrow> bin)"

definition relay_step :: "'i World \<Rightarrow> supervisor \<Rightarrow> supervisor" where
  "relay_step w s =
     (if started s then
        (if received s then s
         else
           (case sigs s of
              None \<Rightarrow> s
            | Some sig \<Rightarrow>
                (let (es, e) = relay (relay_bin w) (Signal w) SignalChild sig
                 in s\<lparr>sigs := None, received := True, relayed := relayed s @ es, ended := e\<rparr>)))
      else s)"

definition earlier_step :: "nat \<Rightarrow> supervisor \<Rightarrow> supervisor" where
  "earlier_step i s =
     (if i < length (earlier s) then
        (case earlier s ! i of
           Fired \<Rightarrow> s
         | Armed bin answer held \<Rightarrow>
             (case held of
                None \<Rightarrow> s
              | Some sig \<Rightarrow>
                  (let (es, e) = relay bin answer SignalEarlierChild sig
                   in s\<lparr>earlier := (earlier s)[i := Fired], relayed := relayed s @ es,
                        ended := e\<rparr>)))
      else s)"

text \<open>
  Nothing moves in a process that has ended, and a run that has returned is over.
  \<open>supervise\<close> runs a schedule from the start of \<^verbatim>\<open>Run\<close>.
\<close>

definition step :: "Config \<Rightarrow> 'i World \<Rightarrow> string list \<Rightarrow> turn \<Rightarrow> supervisor \<Rightarrow> supervisor" where
  "step cfg w args t s =
     (case ended s of
        Some gone \<Rightarrow> s
      | None \<Rightarrow>
          (case returned s of
             Some r \<Rightarrow> s
           | None \<Rightarrow>
               (case t of
                  Main \<Rightarrow> main_step cfg w args s
                | Deliver sig \<Rightarrow> deliver sig s
                | Relay \<Rightarrow> relay_step w s
                | EarlierRelay i \<Rightarrow> earlier_step i s)))"


subsection \<open>Reading a trace\<close>

text \<open>The directory copies of a trace, and the signals a relay has sent to the child.\<close>

fun copies :: "event list \<Rightarrow> (string \<times> string) list" where
  "copies [] = []"
| "copies (CopyDir src dst # es) = (src, dst) # copies es"
| "copies (e # es) = copies es"

fun forwarded :: "relay_event list \<Rightarrow> Signal list" where
  "forwarded [] = []"
| "forwarded (SignalChild s # es) = s # forwarded es"
| "forwarded (e # es) = forwarded es"


text \<open>
  \<open>waited_before_copy\<close>: no directory copy starts before the main goroutine has received
  the result of \<^verbatim>\<open>cmd.Wait()\<close>.
\<close>

fun waited_before_copy :: "event list \<Rightarrow> bool" where
  "waited_before_copy [] = True"
| "waited_before_copy (RecvCmdDone r # es) = True"
| "waited_before_copy (CopyDir src dst # es) = False"
| "waited_before_copy (e # es) = waited_before_copy es"

subsection \<open>Invariants of the supervisor process\<close>



subsection \<open>A concrete run\<close>

text \<open>
  The daemon home is \<^verbatim>\<open>/data/home\<close>, backups are enabled, the upgrade name is
  \<^verbatim>\<open>v2\<close>, the child is started with the argument \<^verbatim>\<open>start\<close> on 1 November 2026,
  and the upgrade notification fires while the child is running. Every outside call
  succeeds.
\<close>

definition home_cfg :: Config where
  "home_cfg = \<lparr>Home = ''/data/home'', UnsafeSkipBackup = False\<rparr>"

definition upgrade_world :: "string World" where
  "upgrade_world =
     \<lparr>CurrentBin = Inr ''/data/home/cosmovisor/current/bin/gaiad'',
      EnsureBinary = (\<lambda>bin. None),
      Start = None,
      UpgradeName = ''v2'',
      Select = UpgradeFirst,
      Kill = None,
      CheckUpdate = (\<lambda>name. False),
      Now = \<lparr>Year = 2026, Month = 11, Day = 1, Hour = 18, Minute = 48, Second = 5, YearDay = 305\<rparr>,
      Copy = (\<lambda>src dst. None),
      SprintfOther = (\<lambda>format a. []),
      currentInfo = Some ''v2'',
      DoUpgrade = (\<lambda>cfg i. None),
      Earlier = [],
      Signal = (\<lambda>sig. None)\<rparr>"

text \<open>
  Variations of that run: the child dies with \<^verbatim>\<open>exit status 2\<close> before any
  notification and the check finds no upgrade; the same with an upgrade found by the
  check; the child exits cleanly; backups are disabled; and the child of the run can no
  longer be signalled.
\<close>

definition crash_world :: "string World" where
  "crash_world = upgrade_world\<lparr>Select := CmdDoneFirst (Some (ErrorString ''exit status 2''))\<rparr>"

definition crash_upgrade_world :: "string World" where
  "crash_upgrade_world = crash_world\<lparr>CheckUpdate := (\<lambda>name. name = ''v2'')\<rparr>"

definition exit_world :: "string World" where
  "exit_world = upgrade_world\<lparr>Select := CmdDoneFirst None\<rparr>"

definition skip_cfg :: Config where
  "skip_cfg = home_cfg\<lparr>UnsafeSkipBackup := True\<rparr>"






section \<open>Properties of WaitResult\<close>

lemma SetError_unlocked:
  "mutex u = Unlocked \<Longrightarrow>
   SetError u myErr = Some (if info u = None \<and> myErr \<noteq> None then u\<lparr>err := myErr\<rparr> else u)"
  by (simp add: SetError_def Lock_def Unlock_def)

lemma SetError_locked: "mutex u = Locked \<Longrightarrow> SetError u myErr = None"
  by (simp add: SetError_def Lock_def)

lemma SetError_info_set: "mutex u = Unlocked \<Longrightarrow> info u = Some i \<Longrightarrow> SetError u myErr = Some u"
  by (simp add: SetError_def Lock_def Unlock_def)

lemma AsResult_unlocked: "mutex u = Unlocked \<Longrightarrow> AsResult u = Some ((info u, err u), u)"
  by (simp add: AsResult_def Lock_def Unlock_def)

text \<open>
  C2 (the code differs from the claim). Two successive writes through \<^verbatim>\<open>SetError\<close> on an
  empty, unlocked record: the first records the non-nil error \<open>exit status 1\<close>, the second
  carries the non-nil error \<open>signal: killed\<close>. \<^verbatim>\<open>SetError\<close> tests only
  \<^verbatim>\<open>u.info == nil && myErr != nil\<close>, never \<^verbatim>\<open>u.err == nil\<close>, so the second
  write replaces the recorded error: the last writer wins, not the first.
\<close>

theorem SetError_second_error_overwrites:
  "Option.bind
     (SetError \<lparr>err = None, info = (None :: string option), mutex = Unlocked\<rparr>
        (Some (ErrorString ''exit status 1'')))
     (\<lambda>u. SetError u (Some (ErrorString ''signal: killed'')))
   = Some \<lparr>err = Some (ErrorString ''signal: killed''), info = None, mutex = Unlocked\<rparr>"
  by (simp add: SetError_def Lock_def Unlock_def)

text \<open>
  C10. On a record whose mutex is free, \<^verbatim>\<open>SetError\<close> returns, and the record it leaves
  is the old one with at most the field \<open>err\<close> replaced: \<open>err\<close> becomes \<open>myErr\<close> when
  \<open>info\<close> is nil and \<open>myErr\<close> is not, and the record is unchanged otherwise. The field
  \<open>info\<close> is never modified, the mutex is free again afterwards, and a nil \<open>myErr\<close> leaves
  the record entirely unchanged.
\<close>

theorem SetError_writes_only_err:
  "mutex u = Unlocked \<Longrightarrow>
     SetError u myErr = Some (if info u = None \<and> myErr \<noteq> None then u\<lparr>err := myErr\<rparr> else u) \<and>
     map_option info (SetError u myErr) = Some (info u) \<and>
     map_option mutex (SetError u myErr) = Some Unlocked \<and>
     SetError u None = Some u"
  by (simp add: SetError_def Lock_def Unlock_def)

theorem SetError_writes_only_err_witness:
  "mutex \<lparr>err = None, info = (None :: string option), mutex = Unlocked\<rparr> = Unlocked \<and>
   SetError \<lparr>err = None, info = (None :: string option), mutex = Unlocked\<rparr>
       (Some (ErrorString ''exit status 1''))
     = Some \<lparr>err = Some (ErrorString ''exit status 1''), info = None, mutex = Unlocked\<rparr> \<and>
   SetError \<lparr>err = None, info = (None :: string option), mutex = Unlocked\<rparr> None
     = Some \<lparr>err = None, info = None, mutex = Unlocked\<rparr>"
  using SetError_writes_only_err
    [of "\<lparr>err = None, info = (None :: string option), mutex = Unlocked\<rparr>"
        "Some (ErrorString ''exit status 1'')"]
  by simp

section \<open>Properties of the formatting functions\<close>

lemma itoa_1: "itoa 1 = ''1''"
  by (simp add: itoa.simps digit_def)

lemma itoa_11: "itoa 11 = ''11''"
  by (simp add: itoa.simps digit_def)

text \<open>
  The layout of \<^verbatim>\<open>doBackup\<close> prints the month on two digits, the day of the month
  three times, and the bytes \<^verbatim>\<open>000\<close>; it never prints the year.
\<close>

lemma Format_backup_layout:
  "Format t ''01-22-2000'' =
     appendInt (Month t) 2 @ ''-'' @ appendInt (Day t) 0 @ appendInt (Day t) 0 @ ''-'' @
     appendInt (Day t) 0 @ ''000''"
  by (simp add: Format.simps stdChunk_def std0x_def appendStd_def)

lemma Format_1_nov: "Month t = 11 \<Longrightarrow> Day t = 1 \<Longrightarrow> Format t ''01-22-2000'' = ''11-11-1000''"
  by (simp only: Format_backup_layout) (simp add: appendInt_def itoa_1 itoa_11 flip: One_nat_def)

lemma Sprintf_no_percent:
  "CHR ''%'' \<notin> set p \<Longrightarrow> Sprintf other (p @ ''%s'') [x] = p @ x"
  by (induction other p "[x]" rule: Sprintf.induct) (auto simp: Sprintf.simps extraString_def)

section \<open>Properties of doBackup\<close>

lemma doBackup_disabled: "UnsafeSkipBackup cfg \<Longrightarrow> doBackup cfg w = (None, [])"
  by (simp add: doBackup_def)

lemma doBackup_Kill: "doBackup cfg (w\<lparr>Kill := k\<rparr>) = doBackup cfg w"
  by (simp add: doBackup_def Let_def split: option.splits)

text \<open>
  With backups enabled and a home directory without \<^verbatim>\<open>%\<close>, the destination is the
  home directory, \<^verbatim>\<open>/data-backup-\<close> and the formatted time.
\<close>

lemma doBackup_enabled:
  assumes "\<not> UnsafeSkipBackup cfg" and "CHR ''%'' \<notin> set (Home cfg)"
  shows "doBackup cfg w =
     (let dst = Home cfg @ ''/data-backup-'' @ Format (Now w) ''01-22-2000''
      in case Copy w (Home cfg @ ''/data'') dst of
           Some e \<Rightarrow>
             (Some (WrapError ''error while taking data backup: '' e),
              [CopyDir (Home cfg @ ''/data'') dst])
         | None \<Rightarrow>
             (None,
              [CopyDir (Home cfg @ ''/data'') dst,
               Stdout (Println [''Backup saved at '', dst])]))"
proof -
  have "CHR ''%'' \<notin> set (Home cfg @ ''/data-backup-'')"
    using assms(2) by simp
  then have "Sprintf (SprintfOther w) ((Home cfg @ ''/data-backup-'') @ ''%s'')
               [Format (Now w) ''01-22-2000'']
             = (Home cfg @ ''/data-backup-'') @ Format (Now w) ''01-22-2000''"
    by (rule Sprintf_no_percent)
  then show ?thesis
    using assms(1) by (simp add: doBackup_def Let_def split: option.splits)
qed

lemma doBackup_home_1_nov:
  assumes "Month (Now w) = 11" and "Day (Now w) = 1"
    and "Copy w ''/data/home/data'' ''/data/home/data-backup-11-11-1000'' = None"
  shows "doBackup home_cfg w =
     (None,
      [CopyDir ''/data/home/data'' ''/data/home/data-backup-11-11-1000'',
       Stdout (''Backup saved at  /data/home/data-backup-11-11-1000'' @ [CHR 0x0A])])"
proof -
  have "\<not> UnsafeSkipBackup home_cfg" and "CHR ''%'' \<notin> set (Home home_cfg)"
    by (simp_all add: home_cfg_def)
  then show ?thesis
    using assms
    by (simp add: doBackup_enabled Let_def Format_1_nov home_cfg_def Println_def)
qed

text \<open>
  C5 (the code differs from the claim). With the home directory \<^verbatim>\<open>/data/home\<close>,
  backups enabled and the clock at 1 November 2026, \<^verbatim>\<open>doBackup\<close> copies
  \<^verbatim>\<open>/data/home/data\<close> to \<^verbatim>\<open>/data/home/data-backup-11-11-1000\<close>: the layout
  \<^verbatim>\<open>"01-22-2000"\<close> is not Go's reference date \<^verbatim>\<open>"01-02-2006"\<close>, so the suffix is the
  month, the day twice, the day again and \<^verbatim>\<open>000\<close>, not the date. On 1 November 2019
  the destination is the same directory.
\<close>

theorem doBackup_destination_is_not_the_date:
  "Now upgrade_world =
     \<lparr>Year = 2026, Month = 11, Day = 1, Hour = 18, Minute = 48, Second = 5, YearDay = 305\<rparr> \<and>
   doBackup home_cfg upgrade_world =
     (None,
      [CopyDir ''/data/home/data'' ''/data/home/data-backup-11-11-1000'',
       Stdout (''Backup saved at  /data/home/data-backup-11-11-1000'' @ [CHR 0x0A])]) \<and>
   doBackup home_cfg
     (upgrade_world\<lparr>Now :=
        \<lparr>Year = 2019, Month = 11, Day = 1, Hour = 9, Minute = 30, Second = 0, YearDay = 305\<rparr>\<rparr>) =
     (None,
      [CopyDir ''/data/home/data'' ''/data/home/data-backup-11-11-1000'',
       Stdout (''Backup saved at  /data/home/data-backup-11-11-1000'' @ [CHR 0x0A])])"
proof -
  have now: "Now upgrade_world =
     \<lparr>Year = 2026, Month = 11, Day = 1, Hour = 18, Minute = 48, Second = 5, YearDay = 305\<rparr>"
    by (simp add: upgrade_world_def)
  have in_2026: "doBackup home_cfg upgrade_world =
     (None,
      [CopyDir ''/data/home/data'' ''/data/home/data-backup-11-11-1000'',
       Stdout (''Backup saved at  /data/home/data-backup-11-11-1000'' @ [CHR 0x0A])])"
    by (rule doBackup_home_1_nov) (simp_all add: upgrade_world_def)
  have in_2019: "doBackup home_cfg
     (upgrade_world\<lparr>Now :=
        \<lparr>Year = 2019, Month = 11, Day = 1, Hour = 9, Minute = 30, Second = 0, YearDay = 305\<rparr>\<rparr>) =
     (None,
      [CopyDir ''/data/home/data'' ''/data/home/data-backup-11-11-1000'',
       Stdout (''Backup saved at  /data/home/data-backup-11-11-1000'' @ [CHR 0x0A])])"
    by (rule doBackup_home_1_nov) (simp_all add: upgrade_world_def)
  show ?thesis
    by (rule conjI [OF now conjI [OF in_2026 in_2019]])
qed

section \<open>Properties of WaitForUpgradeOrExit\<close>

lemma WaitForUpgradeOrExit_UpgradeFirst:
  "Select w = UpgradeFirst \<Longrightarrow>
   WaitForUpgradeOrExit w =
     (Some (True, None),
      [GoCmdWait, MonitorUpdate (UpgradeName w), RecvMonitorUpdate, ProcessKill])"
  by (simp add: WaitForUpgradeOrExit_def Let_def)

lemma WaitForUpgradeOrExit_clean_exit:
  "Select w = CmdDoneFirst None \<Longrightarrow>
   WaitForUpgradeOrExit w =
     (Some (False, None),
      [GoCmdWait, MonitorUpdate (UpgradeName w), RecvCmdDone None, WatcherStop])"
  by (simp add: WaitForUpgradeOrExit_def Let_def)

lemma WaitForUpgradeOrExit_child_error:
  "Select w = CmdDoneFirst (Some e) \<Longrightarrow>
   WaitForUpgradeOrExit w =
     (Some (CheckUpdate w (UpgradeName w),
            if CheckUpdate w (UpgradeName w) then None else Some e),
      [GoCmdWait, MonitorUpdate (UpgradeName w), RecvCmdDone (Some e), WatcherStop,
       CheckUpdateCall (UpgradeName w)])"
  by (simp add: WaitForUpgradeOrExit_def Let_def)

lemma WaitForUpgradeOrExit_blocked:
  "Select w = NeitherReady \<Longrightarrow>
   WaitForUpgradeOrExit w = (None, [GoCmdWait, MonitorUpdate (UpgradeName w)])"
  by (simp add: WaitForUpgradeOrExit_def Let_def)

lemma WaitForUpgradeOrExit_Kill: "WaitForUpgradeOrExit (w\<lparr>Kill := k\<rparr>) = WaitForUpgradeOrExit w"
  by (simp add: WaitForUpgradeOrExit_def Let_def split: select_case.splits option.splits)

lemma WaitForUpgradeOrExit_Copy: "WaitForUpgradeOrExit (w\<lparr>Copy := c\<rparr>) = WaitForUpgradeOrExit w"
  by (simp add: WaitForUpgradeOrExit_def Let_def split: select_case.splits option.splits)

lemma copies_append: "copies (xs @ ys) = copies xs @ copies ys"
  by (induction xs rule: copies.induct) simp_all

lemma copies_WaitForUpgradeOrExit: "copies (snd (WaitForUpgradeOrExit w)) = []"
  by (cases "Select w") (simp_all add: WaitForUpgradeOrExit_def Let_def split: option.splits)

text \<open>
  C1. When the child exits with a non-nil error before any notification and the
  synchronous check \<^verbatim>\<open>CheckUpdate\<close> reports an upgrade for the current upgrade name,
  \<^verbatim>\<open>WaitForUpgradeOrExit\<close> returns \<^verbatim>\<open>(true, nil)\<close>: the error of the child is
  dropped. On the way it has received the exit, stopped the watcher and made the check.
\<close>

theorem WaitForUpgradeOrExit_crash_subsumed:
  "Select w = CmdDoneFirst (Some e) \<Longrightarrow> CheckUpdate w (UpgradeName w) \<Longrightarrow>
   WaitForUpgradeOrExit w =
     (Some (True, None),
      [GoCmdWait, MonitorUpdate (UpgradeName w), RecvCmdDone (Some e), WatcherStop,
       CheckUpdateCall (UpgradeName w)])"
  by (simp add: WaitForUpgradeOrExit_def Let_def)

theorem WaitForUpgradeOrExit_crash_subsumed_witness:
  "Select crash_upgrade_world = CmdDoneFirst (Some (ErrorString ''exit status 2'')) \<and>
   CheckUpdate crash_upgrade_world (UpgradeName crash_upgrade_world) \<and>
   WaitForUpgradeOrExit crash_upgrade_world =
     (Some (True, None),
      [GoCmdWait, MonitorUpdate ''v2'', RecvCmdDone (Some (ErrorString ''exit status 2'')),
       WatcherStop, CheckUpdateCall ''v2''])"
proof -
  have sel: "Select crash_upgrade_world = CmdDoneFirst (Some (ErrorString ''exit status 2''))"
    by (simp add: crash_upgrade_world_def crash_world_def)
  have name: "UpgradeName crash_upgrade_world = ''v2''"
    by (simp add: crash_upgrade_world_def crash_world_def upgrade_world_def)
  have chk: "CheckUpdate crash_upgrade_world (UpgradeName crash_upgrade_world)"
    by (simp add: crash_upgrade_world_def crash_world_def upgrade_world_def)
  show ?thesis
    using sel chk WaitForUpgradeOrExit_crash_subsumed [OF sel chk] by (simp add: name)
qed

section \<open>Properties of Run\<close>

text \<open>After a successful launch, \<^verbatim>\<open>Run\<close> is decided by what the wait returns.\<close>

lemma Run_after_no_update:
  assumes "CurrentBin w = Inr bin" and "EnsureBinary w bin = None" and "Start w = None"
    and "WaitForUpgradeOrExit w = (Some (False, r), tw)"
  shows "Run cfg w args =
     (Some (False, r),
      [Stdout (Println [''[cosmovisor] running '', bin, fmtStrings args]),
       CmdStart bin args, SignalNotify [SIGQUIT, SIGTERM], GoSignalRelay] @ tw)"
  using assms by (cases r) (simp_all add: Run_def Let_def)

lemma Run_after_needsUpdate:
  assumes "CurrentBin w = Inr bin" and "EnsureBinary w bin = None" and "Start w = None"
    and "WaitForUpgradeOrExit w = (Some (True, None), tw)"
  shows "Run cfg w args =
     (case fst (doBackup cfg w) of
        Some e \<Rightarrow>
          (Some (False, Some e),
           [Stdout (Println [''[cosmovisor] running '', bin, fmtStrings args]),
            CmdStart bin args, SignalNotify [SIGQUIT, SIGTERM], GoSignalRelay] @ tw @
           snd (doBackup cfg w))
      | None \<Rightarrow>
          (Some (True, DoUpgrade w cfg (currentInfo w)),
           [Stdout (Println [''[cosmovisor] running '', bin, fmtStrings args]),
            CmdStart bin args, SignalNotify [SIGQUIT, SIGTERM], GoSignalRelay] @ tw @
           snd (doBackup cfg w) @ [DoUpgradeCall]))"
proof -
  obtain berr tb where backup: "doBackup cfg w = (berr, tb)"
    by (cases "doBackup cfg w")
  show ?thesis
    by (cases berr) (simp_all add: Run_def Let_def assms backup)
qed

lemma Run_blocked:
  assumes "CurrentBin w = Inr bin" and "EnsureBinary w bin = None" and "Start w = None"
    and "Select w = NeitherReady"
  shows "fst (Run cfg w args) = None"
  using assms by (simp add: Run_def Let_def WaitForUpgradeOrExit_blocked)

lemma Run_Kill:
  assumes "CurrentBin w = Inr bin" and "EnsureBinary w bin = None" and "Start w = None"
    and "WaitForUpgradeOrExit w = (Some (True, None), tw)"
  shows "Run cfg (w\<lparr>Kill := k\<rparr>) args = Run cfg w args"
proof -
  obtain berr tb where backup: "doBackup cfg w = (berr, tb)"
    by (cases "doBackup cfg w")
  show ?thesis
    by (cases berr)
      (simp_all add: Run_def Let_def assms WaitForUpgradeOrExit_Kill doBackup_Kill backup)
qed

lemma copies_Run_disabled:
  assumes "UnsafeSkipBackup cfg"
  shows "copies (snd (Run cfg w args)) = []"
proof (cases "WaitForUpgradeOrExit w")
  case (Pair waited tw)
  then have tw: "copies tw = []"
    using copies_WaitForUpgradeOrExit [of w] by simp
  show ?thesis
    using assms Pair tw
    by (simp add: Run_def Let_def doBackup_disabled copies_append
        split: sum.splits option.splits prod.splits)
qed

lemma Run_Copy_disabled:
  "UnsafeSkipBackup cfg \<Longrightarrow> Run cfg (w\<lparr>Copy := c\<rparr>) args = Run cfg w args"
  by (simp add: Run_def WaitForUpgradeOrExit_Copy doBackup_disabled Let_def
      split: sum.splits option.splits prod.splits)

lemma upgrade_world_launch:
  "CurrentBin upgrade_world = Inr ''/data/home/cosmovisor/current/bin/gaiad''"
  "EnsureBinary upgrade_world ''/data/home/cosmovisor/current/bin/gaiad'' = None"
  "Start upgrade_world = None"
  "UpgradeName upgrade_world = ''v2''"
  by (simp_all add: upgrade_world_def)

lemma Println_running:
  "Println [''[cosmovisor] running '', ''/data/home/cosmovisor/current/bin/gaiad'',
            fmtStrings [''start'']]
     = ''[cosmovisor] running  /data/home/cosmovisor/current/bin/gaiad [start]'' @ [CHR 0x0A]"
  by (simp add: Println_def fmtStrings_def)

text \<open>
  C6. When the child exits with the non-nil error \<open>e\<close> before any notification and the
  synchronous check finds no upgrade, \<^verbatim>\<open>Run\<close> returns \<^verbatim>\<open>(false, e)\<close> with \<open>e\<close>
  itself, not wrapped, and the trace of the run has no directory copy.
\<close>

theorem Run_child_error:
  assumes "CurrentBin w = Inr bin" and "EnsureBinary w bin = None" and "Start w = None"
    and "Select w = CmdDoneFirst (Some e)" and "\<not> CheckUpdate w (UpgradeName w)"
  shows "Run cfg w args =
     (Some (False, Some e),
      [Stdout (Println [''[cosmovisor] running '', bin, fmtStrings args]),
       CmdStart bin args, SignalNotify [SIGQUIT, SIGTERM], GoSignalRelay, GoCmdWait,
       MonitorUpdate (UpgradeName w), RecvCmdDone (Some e), WatcherStop,
       CheckUpdateCall (UpgradeName w)]) \<and>
     copies (snd (Run cfg w args)) = []"
proof -
  have "WaitForUpgradeOrExit w =
      (Some (False, Some e),
       [GoCmdWait, MonitorUpdate (UpgradeName w), RecvCmdDone (Some e), WatcherStop,
        CheckUpdateCall (UpgradeName w)])"
    using assms(4,5) by (simp add: WaitForUpgradeOrExit_child_error)
  from Run_after_no_update [OF assms(1-3) this] show ?thesis
    by simp
qed

theorem Run_child_error_witness:
  "CurrentBin crash_world = Inr ''/data/home/cosmovisor/current/bin/gaiad'' \<and>
   EnsureBinary crash_world ''/data/home/cosmovisor/current/bin/gaiad'' = None \<and>
   Start crash_world = None \<and>
   Select crash_world = CmdDoneFirst (Some (ErrorString ''exit status 2'')) \<and>
   \<not> CheckUpdate crash_world (UpgradeName crash_world) \<and>
   fst (Run home_cfg crash_world [''start'']) = Some (False, Some (ErrorString ''exit status 2'')) \<and>
   copies (snd (Run home_cfg crash_world [''start''])) = []"
proof -
  have bin: "CurrentBin crash_world = Inr ''/data/home/cosmovisor/current/bin/gaiad''"
    and ens: "EnsureBinary crash_world ''/data/home/cosmovisor/current/bin/gaiad'' = None"
    and start: "Start crash_world = None"
    and sel: "Select crash_world = CmdDoneFirst (Some (ErrorString ''exit status 2''))"
    and chk: "\<not> CheckUpdate crash_world (UpgradeName crash_world)"
    by (simp_all add: crash_world_def upgrade_world_def)
  show ?thesis
    using bin ens start sel chk
      Run_child_error [OF bin ens start sel chk, of home_cfg "[''start'']"]
    by simp
qed

text \<open>
  C7. When the child exits cleanly before any notification, \<^verbatim>\<open>Run\<close> returns
  \<^verbatim>\<open>(false, nil)\<close>, the watcher has been stopped, and the trace of the run has no
  directory copy.
\<close>

theorem Run_clean_exit:
  assumes "CurrentBin w = Inr bin" and "EnsureBinary w bin = None" and "Start w = None"
    and "Select w = CmdDoneFirst None"
  shows "Run cfg w args =
     (Some (False, None),
      [Stdout (Println [''[cosmovisor] running '', bin, fmtStrings args]),
       CmdStart bin args, SignalNotify [SIGQUIT, SIGTERM], GoSignalRelay, GoCmdWait,
       MonitorUpdate (UpgradeName w), RecvCmdDone None, WatcherStop]) \<and>
     WatcherStop \<in> set (snd (Run cfg w args)) \<and>
     copies (snd (Run cfg w args)) = []"
proof -
  from Run_after_no_update [OF assms(1-3) WaitForUpgradeOrExit_clean_exit [OF assms(4)]]
  show ?thesis
    by simp
qed

theorem Run_clean_exit_witness:
  "CurrentBin exit_world = Inr ''/data/home/cosmovisor/current/bin/gaiad'' \<and>
   EnsureBinary exit_world ''/data/home/cosmovisor/current/bin/gaiad'' = None \<and>
   Start exit_world = None \<and>
   Select exit_world = CmdDoneFirst None \<and>
   fst (Run home_cfg exit_world [''start'']) = Some (False, None) \<and>
   WatcherStop \<in> set (snd (Run home_cfg exit_world [''start''])) \<and>
   copies (snd (Run home_cfg exit_world [''start''])) = []"
proof -
  have bin: "CurrentBin exit_world = Inr ''/data/home/cosmovisor/current/bin/gaiad''"
    and ens: "EnsureBinary exit_world ''/data/home/cosmovisor/current/bin/gaiad'' = None"
    and start: "Start exit_world = None"
    and sel: "Select exit_world = CmdDoneFirst None"
    by (simp_all add: exit_world_def upgrade_world_def)
  show ?thesis
    using bin ens start sel Run_clean_exit [OF bin ens start sel, of home_cfg "[''start'']"]
    by simp
qed

text \<open>
  C8. With backups disabled \<^verbatim>\<open>doBackup\<close> returns nil and has no effect; no run makes a
  directory copy, and the result and the trace of a run do not depend on what
  \<^verbatim>\<open>copy.Copy\<close> would answer.
\<close>

theorem doBackup_skipped:
  "UnsafeSkipBackup cfg \<Longrightarrow>
     doBackup cfg w = (None, []) \<and>
     copies (snd (Run cfg w args)) = [] \<and>
     Run cfg (w\<lparr>Copy := c\<rparr>) args = Run cfg w args"
  by (simp add: copies_Run_disabled doBackup_disabled Run_Copy_disabled)

theorem doBackup_skipped_witness:
  "UnsafeSkipBackup skip_cfg \<and>
   doBackup skip_cfg upgrade_world = (None, []) \<and>
   copies (snd (Run skip_cfg upgrade_world [''start''])) = [] \<and>
   Run skip_cfg
     (upgrade_world\<lparr>Copy := (\<lambda>src dst. Some (ErrorString ''no space left on device''))\<rparr>)
     [''start'']
     = Run skip_cfg upgrade_world [''start'']"
proof -
  have skip: "UnsafeSkipBackup skip_cfg"
    by (simp add: skip_cfg_def)
  show ?thesis
    using skip
      doBackup_skipped [OF skip, of upgrade_world "[''start'']"
        "\<lambda>src dst. Some (ErrorString ''no space left on device'')"]
    by simp
qed

text \<open>
  C4 (as stated, refuted). Two runs in which the notification fires first and the child
  is killed: in the first \<^verbatim>\<open>DoUpgrade\<close> fails and \<^verbatim>\<open>Run\<close> returns \<^verbatim>\<open>true\<close>
  together with that error; in the second the copy fails and \<^verbatim>\<open>Run\<close> returns
  \<^verbatim>\<open>false\<close> with the wrapped copy error. Neither result is \<^verbatim>\<open>(true, nil)\<close>.
\<close>

theorem Run_restart_outcome_counterexample:
  "Select (upgrade_world\<lparr>DoUpgrade := (\<lambda>cfg i. Some (ErrorString ''binary not found''))\<rparr>)
     = UpgradeFirst \<and>
   fst (Run home_cfg
          (upgrade_world\<lparr>DoUpgrade := (\<lambda>cfg i. Some (ErrorString ''binary not found''))\<rparr>)
          [''start''])
     = Some (True, Some (ErrorString ''binary not found'')) \<and>
   Select (upgrade_world\<lparr>Copy := (\<lambda>src dst. Some (ErrorString ''no space left on device''))\<rparr>)
     = UpgradeFirst \<and>
   fst (Run home_cfg
          (upgrade_world\<lparr>Copy := (\<lambda>src dst. Some (ErrorString ''no space left on device''))\<rparr>)
          [''start''])
     = Some (False,
         Some (WrapError ''error while taking data backup: ''
                 (ErrorString ''no space left on device'')))"
proof -
  let ?swap = "upgrade_world\<lparr>DoUpgrade := (\<lambda>cfg i. Some (ErrorString ''binary not found''))\<rparr>"
  let ?full = "upgrade_world\<lparr>Copy := (\<lambda>src dst. Some (ErrorString ''no space left on device''))\<rparr>"
  have swap_sel: "Select ?swap = UpgradeFirst" and full_sel: "Select ?full = UpgradeFirst"
    by (simp_all add: upgrade_world_def)
  have swap_backup: "fst (doBackup home_cfg ?swap) = None"
    by (simp add: doBackup_home_1_nov upgrade_world_def)
  have full_backup: "fst (doBackup home_cfg ?full) =
      Some (WrapError ''error while taking data backup: '' (ErrorString ''no space left on device''))"
    by (simp add: doBackup_enabled home_cfg_def upgrade_world_def Let_def)
  have swap_run: "fst (Run home_cfg ?swap [''start'']) = Some (True, Some (ErrorString ''binary not found''))"
    using Run_after_needsUpdate [OF _ _ _ WaitForUpgradeOrExit_UpgradeFirst [OF swap_sel],
        of "''/data/home/cosmovisor/current/bin/gaiad''" home_cfg "[''start'']"]
    by (simp add: swap_backup) (simp add: upgrade_world_def)
  have full_run: "fst (Run home_cfg ?full [''start'']) =
      Some (False,
        Some (WrapError ''error while taking data backup: '' (ErrorString ''no space left on device'')))"
    using Run_after_needsUpdate [OF _ _ _ WaitForUpgradeOrExit_UpgradeFirst [OF full_sel],
        of "''/data/home/cosmovisor/current/bin/gaiad''" home_cfg "[''start'']"]
    by (simp add: full_backup) (simp add: upgrade_world_def)
  show ?thesis
    by (rule conjI [OF swap_sel conjI [OF swap_run conjI [OF full_sel full_run]]])
qed

text \<open>
  C4 (amended). When the notification fires first, \<^verbatim>\<open>Run\<close> kills the child and then
  runs \<^verbatim>\<open>doBackup\<close>. If \<^verbatim>\<open>doBackup\<close> returns an error, \<^verbatim>\<open>Run\<close> returns
  \<^verbatim>\<open>false\<close> with that error; otherwise it calls \<^verbatim>\<open>DoUpgrade\<close> and returns
  \<^verbatim>\<open>true\<close> with the result of \<^verbatim>\<open>DoUpgrade\<close>, which is nil only when the swap
  succeeds. What \<^verbatim>\<open>Kill\<close> answers changes neither the result nor the trace.
\<close>

theorem Run_upgrade_first:
  assumes "CurrentBin w = Inr bin" and "EnsureBinary w bin = None" and "Start w = None"
    and "Select w = UpgradeFirst"
  shows "Run cfg w args =
     (case fst (doBackup cfg w) of
        Some e \<Rightarrow>
          (Some (False, Some e),
           [Stdout (Println [''[cosmovisor] running '', bin, fmtStrings args]),
            CmdStart bin args, SignalNotify [SIGQUIT, SIGTERM], GoSignalRelay, GoCmdWait,
            MonitorUpdate (UpgradeName w), RecvMonitorUpdate, ProcessKill] @
           snd (doBackup cfg w))
      | None \<Rightarrow>
          (Some (True, DoUpgrade w cfg (currentInfo w)),
           [Stdout (Println [''[cosmovisor] running '', bin, fmtStrings args]),
            CmdStart bin args, SignalNotify [SIGQUIT, SIGTERM], GoSignalRelay, GoCmdWait,
            MonitorUpdate (UpgradeName w), RecvMonitorUpdate, ProcessKill] @
           snd (doBackup cfg w) @ [DoUpgradeCall])) \<and>
     Run cfg (w\<lparr>Kill := k\<rparr>) args = Run cfg w args"
proof
  note waited = WaitForUpgradeOrExit_UpgradeFirst [OF assms(4)]
  from Run_after_needsUpdate [OF assms(1-3) waited, of cfg args]
  show "Run cfg w args =
     (case fst (doBackup cfg w) of
        Some e \<Rightarrow>
          (Some (False, Some e),
           [Stdout (Println [''[cosmovisor] running '', bin, fmtStrings args]),
            CmdStart bin args, SignalNotify [SIGQUIT, SIGTERM], GoSignalRelay, GoCmdWait,
            MonitorUpdate (UpgradeName w), RecvMonitorUpdate, ProcessKill] @
           snd (doBackup cfg w))
      | None \<Rightarrow>
          (Some (True, DoUpgrade w cfg (currentInfo w)),
           [Stdout (Println [''[cosmovisor] running '', bin, fmtStrings args]),
            CmdStart bin args, SignalNotify [SIGQUIT, SIGTERM], GoSignalRelay, GoCmdWait,
            MonitorUpdate (UpgradeName w), RecvMonitorUpdate, ProcessKill] @
           snd (doBackup cfg w) @ [DoUpgradeCall]))"
    by (simp split: option.splits)
  show "Run cfg (w\<lparr>Kill := k\<rparr>) args = Run cfg w args"
    by (rule Run_Kill [OF assms(1-3) waited])
qed

theorem Run_upgrade_first_witness:
  "CurrentBin upgrade_world = Inr ''/data/home/cosmovisor/current/bin/gaiad'' \<and>
   EnsureBinary upgrade_world ''/data/home/cosmovisor/current/bin/gaiad'' = None \<and>
   Start upgrade_world = None \<and>
   Select upgrade_world = UpgradeFirst \<and>
   fst (Run home_cfg upgrade_world [''start'']) = Some (True, None) \<and>
   copies (snd (Run home_cfg upgrade_world [''start''])) =
     [(''/data/home/data'', ''/data/home/data-backup-11-11-1000'')] \<and>
   Run home_cfg (upgrade_world\<lparr>Kill := Some (ErrorString ''operation not permitted'')\<rparr>) [''start'']
     = Run home_cfg upgrade_world [''start'']"
proof -
  have bin: "CurrentBin upgrade_world = Inr ''/data/home/cosmovisor/current/bin/gaiad''"
    and ens: "EnsureBinary upgrade_world ''/data/home/cosmovisor/current/bin/gaiad'' = None"
    and start: "Start upgrade_world = None"
    and sel: "Select upgrade_world = UpgradeFirst"
    by (simp_all add: upgrade_world_def)
  have backup: "doBackup home_cfg upgrade_world =
     (None,
      [CopyDir ''/data/home/data'' ''/data/home/data-backup-11-11-1000'',
       Stdout (''Backup saved at  /data/home/data-backup-11-11-1000'' @ [CHR 0x0A])])"
    by (rule doBackup_home_1_nov) (simp_all add: upgrade_world_def)
  have swap: "DoUpgrade upgrade_world home_cfg (currentInfo upgrade_world) = None"
    by (simp add: upgrade_world_def)
  show ?thesis
    using bin ens start sel
      Run_upgrade_first [OF bin ens start sel, of home_cfg "[''start'']"
        "Some (ErrorString ''operation not permitted'')"]
    by (simp add: backup swap)
qed

text \<open>
  C3 (the code differs from the claim). The run of the scenario above: the notification
  fires first, \<^verbatim>\<open>Run\<close> kills the child and starts the copy at once. The main goroutine
  never receives from \<^verbatim>\<open>cmdDone\<close>: the copy starts, and \<^verbatim>\<open>Run\<close> returns, without the
  child having been waited on. The run is the same when \<^verbatim>\<open>Kill\<close> fails.
\<close>

theorem Run_copies_before_child_waited:
  "Run home_cfg upgrade_world [''start''] =
     (Some (True, None),
      [Stdout (''[cosmovisor] running  /data/home/cosmovisor/current/bin/gaiad [start]'' @ [CHR 0x0A]),
       CmdStart ''/data/home/cosmovisor/current/bin/gaiad'' [''start''],
       SignalNotify [SIGQUIT, SIGTERM], GoSignalRelay, GoCmdWait, MonitorUpdate ''v2'',
       RecvMonitorUpdate, ProcessKill,
       CopyDir ''/data/home/data'' ''/data/home/data-backup-11-11-1000'',
       Stdout (''Backup saved at  /data/home/data-backup-11-11-1000'' @ [CHR 0x0A]),
       DoUpgradeCall]) \<and>
   waited_before_copy (snd (Run home_cfg upgrade_world [''start''])) = False \<and>
   Run home_cfg (upgrade_world\<lparr>Kill := Some (ErrorString ''operation not permitted'')\<rparr>) [''start'']
     = Run home_cfg upgrade_world [''start'']"
proof -
  have sel: "Select upgrade_world = UpgradeFirst"
    by (simp add: upgrade_world_def)
  note waited = WaitForUpgradeOrExit_UpgradeFirst [OF sel]
  have backup: "doBackup home_cfg upgrade_world =
     (None,
      [CopyDir ''/data/home/data'' ''/data/home/data-backup-11-11-1000'',
       Stdout (''Backup saved at  /data/home/data-backup-11-11-1000'' @ [CHR 0x0A])])"
    by (rule doBackup_home_1_nov) (simp_all add: upgrade_world_def)
  have swap: "DoUpgrade upgrade_world home_cfg (currentInfo upgrade_world) = None"
    by (simp add: upgrade_world_def)
  have run: "Run home_cfg upgrade_world [''start''] =
     (Some (True, None),
      [Stdout (''[cosmovisor] running  /data/home/cosmovisor/current/bin/gaiad [start]'' @ [CHR 0x0A]),
       CmdStart ''/data/home/cosmovisor/current/bin/gaiad'' [''start''],
       SignalNotify [SIGQUIT, SIGTERM], GoSignalRelay, GoCmdWait, MonitorUpdate ''v2'',
       RecvMonitorUpdate, ProcessKill,
       CopyDir ''/data/home/data'' ''/data/home/data-backup-11-11-1000'',
       Stdout (''Backup saved at  /data/home/data-backup-11-11-1000'' @ [CHR 0x0A]),
       DoUpgradeCall])"
    using Run_after_needsUpdate [OF upgrade_world_launch(1-3) waited, of home_cfg "[''start'']"]
    by (simp add: backup swap Println_running upgrade_world_launch(4))
  have kill: "Run home_cfg (upgrade_world\<lparr>Kill := Some (ErrorString ''operation not permitted'')\<rparr>)
      [''start''] = Run home_cfg upgrade_world [''start'']"
    by (rule Run_Kill [OF upgrade_world_launch(1-3) waited])
  show ?thesis
    by (simp only: run kill) simp
qed

text \<open>
  On the other path to a restart, the crash that the check turns into an upgrade, the
  exit of the child has been received before the copy starts.
\<close>

lemma Run_crash_upgrade_waited_before_copy:
  assumes "CurrentBin w = Inr bin" and "EnsureBinary w bin = None" and "Start w = None"
    and "Select w = CmdDoneFirst (Some e)" and "CheckUpdate w (UpgradeName w)"
  shows "waited_before_copy (snd (Run cfg w args))"
proof -
  have "WaitForUpgradeOrExit w =
      (Some (True, None),
       [GoCmdWait, MonitorUpdate (UpgradeName w), RecvCmdDone (Some e), WatcherStop,
        CheckUpdateCall (UpgradeName w)])"
    using assms(4,5) by (simp add: WaitForUpgradeOrExit_child_error)
  from Run_after_needsUpdate [OF assms(1-3) this, of cfg args] show ?thesis
    by (simp split: option.splits)
qed

section \<open>Properties of the signal relay and the supervisor process\<close>














lemma forwarded_relay:
  "forwarded (fst (relay bin answer SignalChild sig)) = [sig]"
  by (simp add: relay_def split: option.splits)

lemma relay_receives:
  assumes "ended s = None" and "returned s = None" and "started s" and "\<not> received s"
    and "sigs s = Some sig"
  shows "received (step cfg w args Relay s) \<and>
     relayed (step cfg w args Relay s) =
       relayed s @ fst (relay (relay_bin w) (Signal w) SignalChild sig)"
  using assms by (simp add: step_def relay_step_def split: prod.splits)











end
